theory Spec2Isabelle
  imports Main "HOL-Library.Word"
begin

section \<open>Failures of the embedded code\<close>

text \<open>
  The C++ sources abort on a failed \<open>assert\<close> and leave an unchecked
  \<open>std::vector\<close> subscript outside the vector undefined, as they leave
  \<open>delete[]\<close> of a pointer that is not a live array of \<open>new[]\<close>. All three are
  values of the models below: a function that can reach one returns \<open>error + 'a\<close>.
\<close>

datatype error = AssertionFailed | OutOfRange | InvalidDelete

section \<open>Optimizer group (src/include/optimizer/group.h)\<close>

text \<open>
  \<open>GroupID\<close> is \<open>int32_t\<close>: a 32-bit word, read as a signed number by
  \<open>sint\<close>. \<open>Operator\<close>, \<open>GroupExpression\<close> and
  \<open>PropertySet\<close> are classes of headers that are not among the sources; the group
  only stores them, so they are opaque identifiers here (a \<open>shared_ptr\<close> is the
  identity of the object it points to). The cost is a \<open>double\<close> that the members
  modelled here never read; it is kept as an integer. A member \<open>m_\<close> of the class is the field \<open>m\<close> of
  the record (a name cannot end in an underscore here), and \<open>id_\<close> is \<open>group_id\<close>.
\<close>

type_synonym GroupID = "32 word"
type_synonym Operator = nat
type_synonym GroupExpression_ptr = nat
type_synonym PropertySet = nat

record Group =
  group_id :: GroupID
  items :: "Operator list"
  expressions :: "GroupExpression_ptr list"
  lowest_cost_expressions :: "PropertySet \<rightharpoonup> (int \<times> GroupExpression_ptr)"
  has_explored :: bool
  has_implemented :: bool

definition UNDEFINED_GROUP :: GroupID where
  "UNDEFINED_GROUP = - 1"

text \<open>The four members that group.h defines inline (lines 46 to 50).\<close>

definition SetExplorationFlag :: "Group \<Rightarrow> Group" where
  "SetExplorationFlag g = g\<lparr>has_explored := True\<rparr>"

definition HasExplored :: "Group \<Rightarrow> bool" where
  "HasExplored g = has_explored g"

definition SetImplementationFlag :: "Group \<Rightarrow> Group" where
  "SetImplementationFlag g = g\<lparr>has_implemented := True\<rparr>"

definition HasImplemented :: "Group \<Rightarrow> bool" where
  "HasImplemented g = has_implemented g"

text \<open>
  \<open>add_item\<close>, \<open>AddExpression\<close>, \<open>SetExpressionCost\<close>, \<open>GetBestExpression\<close>,
  \<open>GetExpressions\<close> and the constructor are declared in group.h and defined in
  group.cpp, which is not among the sources; they are not modelled. The class declares
  no copy operation of its own, so it has the implicit public copy assignment, which
  assigns every member of the right-hand side, the two flags with them.
\<close>

definition copy_assign :: "Group \<Rightarrow> Group \<Rightarrow> Group" where
  \<comment> \<open>\<open>g = rhs\<close>: the implicitly declared \<open>Group::operator=(const Group&)\<close>\<close>
  "copy_assign g rhs =
     g\<lparr>group_id := group_id rhs, items := items rhs, expressions := expressions rhs,
       lowest_cost_expressions := lowest_cost_expressions rhs,
       has_explored := has_explored rhs, has_implemented := has_implemented rhs\<rparr>"

text \<open>
  A call of one of the four flag members, and the group it leaves behind; the two
  getters leave the group as it is.
\<close>

datatype FlagCall =
    Call_SetExplorationFlag
  | Call_HasExplored
  | Call_SetImplementationFlag
  | Call_HasImplemented

fun call :: "Group \<Rightarrow> FlagCall \<Rightarrow> Group" where
  "call g Call_SetExplorationFlag = SetExplorationFlag g"
| "call g Call_HasExplored = g"
| "call g Call_SetImplementationFlag = SetImplementationFlag g"
| "call g Call_HasImplemented = g"

definition calls :: "Group \<Rightarrow> FlagCall list \<Rightarrow> Group" where
  "calls g cs = foldl call g cs"

text \<open>A group that has been neither explored nor implemented.\<close>

definition untouched_group :: Group where
  "untouched_group =
     \<lparr>group_id = 0, items = [], expressions = [], lowest_cost_expressions = Map.empty,
      has_explored = False, has_implemented = False\<rparr>"

section \<open>Tuple (src/storage/tuple.h)\<close>

text \<open>
  A tuple is two raw pointers: to its schema and to its bytes. A pointer is an address
  or null (\<open>None\<close>). What the destructor does is a change of the heap, so the heap is
  explicit: the live arrays made by \<open>new[]\<close>, each with its length, and the next
  address \<open>new[]\<close> hands out.
\<close>

type_synonym addr = nat

record Schema =
  schema_length :: nat
  \<comment> \<open>Modelled from the spec: \<open>catalog::Schema\<close> is not among the sources; of the row
      layout contract (total length; per-column type, inlined flag, lengths) the
      constructors and the destructor use the total length only (\<open>GetLength()\<close>).\<close>

record Heap =
  arrays :: "addr \<rightharpoonup> nat"
  next_addr :: addr

definition empty_heap :: Heap where
  "empty_heap = \<lparr>arrays = Map.empty, next_addr = 0\<rparr>"

definition new_array :: "Heap \<Rightarrow> nat \<Rightarrow> addr \<times> Heap" where
  \<comment> \<open>\<open>new char[n]\<close>\<close>
  "new_array h n = (next_addr h, h\<lparr>arrays := (arrays h)(next_addr h \<mapsto> n), next_addr := Suc (next_addr h)\<rparr>)"

definition delete_array :: "Heap \<Rightarrow> addr option \<Rightarrow> error + Heap" where
  \<comment> \<open>\<open>delete[] p\<close>: nothing for a null pointer, the array is released otherwise\<close>
  "delete_array h p =
     (case p of
        None \<Rightarrow> Inr h
      | Some a \<Rightarrow>
          (case arrays h a of
             None \<Rightarrow> Inl InvalidDelete
           | Some n \<Rightarrow> Inr (h\<lparr>arrays := (arrays h)(a := None)\<rparr>)))"

record Tuple =
  tuple_schema :: "Schema option"
  tuple_data :: "addr option"

definition Tuple_default :: Tuple where
  \<comment> \<open>tuple.h line 38\<close>
  "Tuple_default = \<lparr>tuple_schema = None, tuple_data = None\<rparr>"

definition Tuple_copy :: "Tuple \<Rightarrow> Tuple" where
  \<comment> \<open>tuple.h line 42\<close>
  "Tuple_copy rhs = \<lparr>tuple_schema = tuple_schema rhs, tuple_data = tuple_data rhs\<rparr>"

definition Tuple_of_schema :: "Schema option \<Rightarrow> error + Tuple" where
  \<comment> \<open>tuple.h lines 46 to 48\<close>
  "Tuple_of_schema schema =
     (if schema = None then Inl AssertionFailed
      else Inr \<lparr>tuple_schema = schema, tuple_data = None\<rparr>)"

definition Tuple_of_schema_data :: "Schema option \<Rightarrow> addr option \<Rightarrow> error + Tuple" where
  \<comment> \<open>tuple.h lines 51 to 54: a tuple over a location the caller supplies\<close>
  "Tuple_of_schema_data schema data =
     (if schema = None then Inl AssertionFailed
      else if data = None then Inl AssertionFailed
      else Inr \<lparr>tuple_schema = schema, tuple_data = data\<rparr>)"

definition Tuple_allocate :: "Heap \<Rightarrow> Schema option \<Rightarrow> bool \<Rightarrow> error + Tuple \<times> Heap" where
  \<comment> \<open>tuple.h lines 57 to 64: a tuple with space of its own\<close>
  "Tuple_allocate h schema allocate =
     (case schema of
        None \<Rightarrow> Inl AssertionFailed
      | Some sch \<Rightarrow>
          if allocate
          then (let (a, h') = new_array h (schema_length sch)
                in Inr (\<lparr>tuple_schema = schema, tuple_data = Some a\<rparr>, h'))
          else Inr (\<lparr>tuple_schema = schema, tuple_data = None\<rparr>, h))"

definition Tuple_of_data_schema :: "addr option \<Rightarrow> Schema option \<Rightarrow> error + Tuple" where
  \<comment> \<open>tuple.h lines 213 to 219\<close>
  "Tuple_of_data_schema data schema =
     (if data = None then Inl AssertionFailed
      else if schema = None then Inl AssertionFailed
      else Inr \<lparr>tuple_schema = schema, tuple_data = data\<rparr>)"

definition Tuple_destroy :: "Tuple \<Rightarrow> Heap \<Rightarrow> error + Heap" where
  \<comment> \<open>tuple.h lines 69 to 73: \<open>delete[] tuple_data\<close>\<close>
  "Tuple_destroy t h = delete_array h (tuple_data t)"

definition Move :: "Tuple \<Rightarrow> addr option \<Rightarrow> Tuple" where
  \<comment> \<open>tuple.h lines 87 to 89\<close>
  "Move t address = t\<lparr>tuple_data := address\<rparr>"

definition Tuple_IsNull :: "Tuple \<Rightarrow> bool" where
  \<comment> \<open>tuple.h lines 117 to 119\<close>
  "Tuple_IsNull t = (tuple_data t = None)"

definition SetNull :: "Tuple \<Rightarrow> Tuple" where
  \<comment> \<open>tuple.h lines 148 to 150\<close>
  "SetNull t = t\<lparr>tuple_data := None\<rparr>"

text \<open>
  A caller makes a buffer of sixteen bytes, sets a tuple up over it with the
  constructor of lines 51 to 54, and the tuple goes out of scope: the heap the caller
  is left with.
\<close>

definition borrowed_buffer_scenario :: "error + addr \<times> Heap" where
  "borrowed_buffer_scenario =
     (let (buffer, h) = new_array empty_heap 16
      in case Tuple_of_schema_data (Some \<lparr>schema_length = 16\<rparr>) (Some buffer) of
           Inl e \<Rightarrow> Inl e
         | Inr t \<Rightarrow> (case Tuple_destroy t h of Inl e \<Rightarrow> Inl e | Inr h' \<Rightarrow> Inr (buffer, h')))"

text \<open>
  A heap with a buffer of sixteen bytes (address 0) and an out-of-line payload of five
  bytes (address 1), and a tuple that was set up over the buffer.
\<close>

definition heap_with_payload :: Heap where
  "heap_with_payload = \<lparr>arrays = [0 \<mapsto> 16, 1 \<mapsto> 5], next_addr = 2\<rparr>"

definition tuple_over_buffer :: Tuple where
  "tuple_over_buffer = \<lparr>tuple_schema = Some \<lparr>schema_length = 16\<rparr>, tuple_data = Some 0\<rparr>"

section \<open>Nested-loop join (src/backend/executor/nested\_loop\_join\_executor.cpp)\<close>

subsection \<open>Logical tiles and the predicate\<close>

text \<open>
  \<open>LogicalTile\<close>, \<open>oid_t\<close> and the column descriptors of a tile's schema are declared
  in headers that are not among the sources. The join reads and writes a tile through
  \<open>GetSchema\<close>, \<open>SetSchema\<close>, \<open>GetPositionLists\<close> and \<open>SetPositionLists\<close> only, so a
  tile is the record of these two members: the fields are named after the getters, and
  \<open>SetSchema\<close> and \<open>SetPositionLists\<close> are the updates of the fields. Positions and
  descriptors are copied and never computed with: \<open>oid_t\<close> values are natural numbers,
  descriptors are names.
  Counts are \<open>size_t\<close>; they count elements of vectors in memory and are natural
  numbers here.
\<close>

type_synonym oid_t = nat
type_synonym ColumnInfo = string

record LogicalTile =
  GetSchema :: "ColumnInfo list"
  GetPositionLists :: "oid_t list list"

definition LogicalTileFactory_GetTile :: LogicalTile where
  \<comment> \<open>Modelled from the spec: \<open>LogicalTileFactory::GetTile\<close> is not among the sources;
      "Factory creates an empty batch (no schema, no position lists)".\<close>
  "LogicalTileFactory_GetTile = \<lparr>GetSchema = [], GetPositionLists = []\<rparr>"

text \<open>
  The predicate is an \<open>AbstractExpression\<close>; \<open>Evaluate\<close> takes the two row adapters
  (\<open>ContainerTuple\<close>: a tile and a row index) and returns a \<open>Value\<close>, of which the join
  asks \<open>IsFalse()\<close> and nothing else. Neither class is among the sources.
\<close>

datatype Value = ValueTrue | ValueFalse | ValueUnknown
  \<comment> \<open>Modelled from the spec: the result of the predicate capability,
      "evaluate(left_row, right_row) -> {true, false, unknown}".\<close>

definition IsFalse :: "Value \<Rightarrow> bool" where
  \<comment> \<open>Modelled from the spec: \<open>Value::IsFalse\<close>, the test of line 149, is not among
      the sources. The spec describes the test: "skip the pair unless the result is
      exactly "true" (an "unknown"/false result is a non-match)", and "Predicate result
      "unknown": not an error; treated identically to "false"". It holds of "false"
      and of "unknown".\<close>
  "IsFalse v = (v \<noteq> ValueTrue)"

datatype ContainerTuple = ContainerTuple LogicalTile nat

type_synonym AbstractExpression = "ContainerTuple \<Rightarrow> ContainerTuple \<Rightarrow> Value"

subsection \<open>The loops of DExecute over one pair of tiles (lines 109 to 173)\<close>

fun for_each :: "nat list \<Rightarrow> (nat \<Rightarrow> 's \<Rightarrow> error + 's) \<Rightarrow> 's \<Rightarrow> error + 's" where
  \<comment> \<open>\<open>for (size_t i = 0; i < n; i++) body\<close> is \<open>for_each [0..<n] body\<close>; a failure
      in the body ends the loop\<close>
  "for_each [] body s = Inr s"
| "for_each (i # rest) body s =
     (case body i s of Inl e \<Rightarrow> Inl e | Inr s' \<Rightarrow> for_each rest body s')"

definition at2 :: "oid_t list list \<Rightarrow> nat \<Rightarrow> nat \<Rightarrow> error + oid_t" where
  \<comment> \<open>\<open>v[c][i]\<close>, both subscripts unchecked in the source\<close>
  "at2 vs c i =
     (if c < length vs
      then (if i < length (vs ! c) then Inr (vs ! c ! i) else Inl OutOfRange)
      else Inl OutOfRange)"

definition push_back_at :: "oid_t list list \<Rightarrow> nat \<Rightarrow> oid_t \<Rightarrow> error + oid_t list list" where
  \<comment> \<open>\<open>v[c].push_back(v)\<close>\<close>
  "push_back_at vs c v =
     (if c < length vs then Inr (vs[c := vs ! c @ [v]]) else Inl OutOfRange)"

definition copy_left :: "oid_t list list \<Rightarrow> nat \<Rightarrow> oid_t list list \<Rightarrow> error + oid_t list list" where
  \<comment> \<open>lines 157 to 162\<close>
  "copy_left left_tile_position_lists left_tile_row_itr position_lists =
     for_each [0..<length left_tile_position_lists]
       (\<lambda>output_tile_column_itr pls.
          case at2 left_tile_position_lists output_tile_column_itr left_tile_row_itr of
            Inl e \<Rightarrow> Inl e
          | Inr v \<Rightarrow> push_back_at pls output_tile_column_itr v)
       position_lists"

definition copy_right :: "oid_t list list \<Rightarrow> nat \<Rightarrow> nat \<Rightarrow> oid_t list list \<Rightarrow> error + oid_t list list" where
  \<comment> \<open>lines 165 to 170\<close>
  "copy_right right_tile_position_lists left_tile_column_count right_tile_row_itr position_lists =
     for_each [0..<length right_tile_position_lists]
       (\<lambda>output_tile_column_itr pls.
          case at2 right_tile_position_lists output_tile_column_itr right_tile_row_itr of
            Inl e \<Rightarrow> Inl e
          | Inr v \<Rightarrow> push_back_at pls (left_tile_column_count + output_tile_column_itr) v)
       position_lists"

definition skip_pair :: "AbstractExpression option \<Rightarrow> LogicalTile \<Rightarrow> nat \<Rightarrow> LogicalTile \<Rightarrow> nat \<Rightarrow> bool" where
  \<comment> \<open>lines 143 to 152: whether the pair is left with \<open>continue\<close>\<close>
  "skip_pair predicate left_tile left_tile_row_itr right_tile right_tile_row_itr =
     (case predicate of
        None \<Rightarrow> False
      | Some p \<Rightarrow>
          IsFalse (p (ContainerTuple left_tile left_tile_row_itr)
                     (ContainerTuple right_tile right_tile_row_itr)))"

definition join_position_lists ::
  "AbstractExpression option \<Rightarrow> LogicalTile \<Rightarrow> LogicalTile \<Rightarrow> error + oid_t list list" where
  \<comment> \<open>lines 114 to 173\<close>
  "join_position_lists predicate left_tile right_tile =
     (let left_tile_position_lists = GetPositionLists left_tile;
          right_tile_position_lists = GetPositionLists right_tile;
          left_tile_column_count = length left_tile_position_lists;
          right_tile_column_count = length right_tile_position_lists;
          output_tile_column_count = left_tile_column_count + right_tile_column_count
      in if left_tile_column_count = 0 then Inl AssertionFailed
         else if right_tile_column_count = 0 then Inl AssertionFailed
         else
           (let left_tile_row_count = length (left_tile_position_lists ! 0);
                right_tile_row_count = length (right_tile_position_lists ! 0)
            in for_each [0..<left_tile_row_count]
                 (\<lambda>left_tile_row_itr.
                    for_each [0..<right_tile_row_count]
                      (\<lambda>right_tile_row_itr pls.
                         if skip_pair predicate left_tile left_tile_row_itr right_tile right_tile_row_itr
                         then Inr pls
                         else (case copy_left left_tile_position_lists left_tile_row_itr pls of
                                 Inl e \<Rightarrow> Inl e
                               | Inr pls' \<Rightarrow>
                                   copy_right right_tile_position_lists left_tile_column_count
                                     right_tile_row_itr pls')))
                 (replicate output_tile_column_count [])))"

subsection \<open>Child executors\<close>

text \<open>
  \<open>AbstractExecutor\<close>, with the \<open>Init\<close>, \<open>Execute\<close> and \<open>GetOutput\<close> the join calls on
  its children, is not among the sources. A child is modelled from the operator
  contract of the spec: the tiles it produces on one pass, how many of them it has
  produced on this pass, and its output slot. \<open>DExecute\<close> puts what \<open>GetOutput\<close>
  returns into a \<open>std::unique_ptr\<close> of its own (lines 90 and 91), which destroys the
  tile when the activation ends: the join is the owner of every tile it takes, and a
  tile it took is not to be had from the child again.
\<close>

record Child =
  batches :: "LogicalTile list"
  cursor :: nat
  slot :: "LogicalTile option"

definition child_Init :: "Child \<Rightarrow> Child" where
  \<comment> \<open>Modelled from the spec: \<open>AbstractExecutor::Init\<close> of a child is not among the
      sources; "init(): establish/re-establish iteration state; callable again after
      exhaustion to restart from the beginning".\<close>
  "child_Init c = c\<lparr>cursor := 0\<rparr>"

definition child_Execute :: "Child \<Rightarrow> bool \<times> Child" where
  \<comment> \<open>Modelled from the spec: \<open>AbstractExecutor::Execute\<close> of a child is not among the
      sources; "advance() -> bool: true means a new output batch is available, false
      means exhausted for now".\<close>
  "child_Execute c =
     (if cursor c < length (batches c)
      then (True, c\<lparr>slot := Some (batches c ! cursor c), cursor := Suc (cursor c)\<rparr>)
      else (False, c))"

definition child_GetOutput :: "Child \<Rightarrow> LogicalTile option \<times> Child" where
  \<comment> \<open>Modelled from the spec: \<open>AbstractExecutor::GetOutput\<close> is not among the sources;
      "take_output() -> batch: ownership transfers to the caller; callable once per
      successful advance". The caller gets what the slot holds and the slot is left
      empty; a take that no advance preceded gets the null pointer.\<close>
  "child_GetOutput c = (slot c, c\<lparr>slot := None\<rparr>)"

definition new_child :: "LogicalTile list \<Rightarrow> Child" where
  "new_child ts = \<lparr>batches = ts, cursor = 0, slot = None\<rparr>"

subsection \<open>The executor\<close>

text \<open>
  \<open>children_\<close> holds exactly two executors (the assertion of \<open>DInit\<close>, line 39);
  \<open>children0\<close> is \<open>children_[0]\<close>, the left child, and \<open>children1\<close> is \<open>children_[1]\<close>.
  \<open>join_output\<close> is the slot that \<open>SetOutput\<close> fills for the caller of the join.
\<close>

record NestedLoopJoinExecutor =
  children0 :: Child
  children1 :: Child
  predicate :: "AbstractExpression option"
  left_scan_start :: bool
  join_output :: "LogicalTile option"

definition DInit :: "AbstractExpression option \<Rightarrow> Child list \<Rightarrow> error + NestedLoopJoinExecutor" where
  \<comment> \<open>lines 38 to 49, on an executor that was given the children \<open>children\<close> and whose
      plan node holds the predicate \<open>node_predicate\<close>\<close>
  "DInit node_predicate children =
     (if length children = 2
      then Inr \<lparr>children0 = children ! 0, children1 = children ! 1,
                predicate = node_predicate, left_scan_start = True, join_output = None\<rparr>
      else Inl AssertionFailed)"

datatype attempt = Returned bool NestedLoopJoinExecutor | TryAgain NestedLoopJoinExecutor

definition pull_right :: "NestedLoopJoinExecutor \<Rightarrow> bool \<times> bool \<times> NestedLoopJoinExecutor" where
  \<comment> \<open>lines 59 to 73: (whether a right tile was got, \<open>right_scan_end\<close>, the executor)\<close>
  "pull_right s =
     (let (got, c1) = child_Execute (children1 s)
      in if got then (True, False, s\<lparr>children1 := c1\<rparr>)
         else (let (got_again, c1') = child_Execute (child_Init c1)
               in (got_again, True, s\<lparr>children1 := c1'\<rparr>)))"

definition pull_left :: "bool \<Rightarrow> NestedLoopJoinExecutor \<Rightarrow> bool \<times> NestedLoopJoinExecutor" where
  \<comment> \<open>lines 77 to 88: (whether a left tile is at hand, the executor)\<close>
  "pull_left right_scan_end s =
     (if left_scan_start s \<or> right_scan_end
      then (let s' = s\<lparr>left_scan_start := False\<rparr>;
                (got, c0) = child_Execute (children0 s')
            in (got, s'\<lparr>children0 := c0\<rparr>))
      else (True, s))"

definition join_tiles :: "NestedLoopJoinExecutor \<Rightarrow> error + attempt" where
  \<comment> \<open>lines 90 to 188: the two tiles are taken from the children, joined, and the
      result is published when it has a row\<close>
  "join_tiles s =
     (let (left_tile, c0) = child_GetOutput (children0 s);
          (right_tile, c1) = child_GetOutput (children1 s);
          s' = s\<lparr>children0 := c0, children1 := c1\<rparr>
      in case left_tile of
           None \<Rightarrow> Inl AssertionFailed
         | Some lt \<Rightarrow>
             (case right_tile of
                None \<Rightarrow> Inl AssertionFailed
              | Some rt \<Rightarrow>
                  (let output_tile = LogicalTileFactory_GetTile\<lparr>GetSchema := GetSchema lt @ GetSchema rt\<rparr>
                   in case join_position_lists (predicate s') lt rt of
                        Inl e \<Rightarrow> Inl e
                      | Inr pls \<Rightarrow>
                          if length (pls ! 0) > 0
                          then Inr (Returned True
                                 (s'\<lparr>join_output := Some (output_tile\<lparr>GetPositionLists := pls\<rparr>)\<rparr>))
                          else Inr (TryAgain s'))))"

definition DExecute_once :: "NestedLoopJoinExecutor \<Rightarrow> error + attempt" where
  \<comment> \<open>one activation of \<open>DExecute\<close> up to its \<open>return\<close> or to the call of itself in
      line 187\<close>
  "DExecute_once s =
     (case pull_right s of
        (False, right_scan_end, s1) \<Rightarrow> Inr (Returned False s1)
      | (True, right_scan_end, s1) \<Rightarrow>
          (case pull_left right_scan_end s1 of
             (False, s2) \<Rightarrow> Inr (Returned False s2)
           | (True, s2) \<Rightarrow> join_tiles s2))"

definition pairs_left :: "NestedLoopJoinExecutor \<Rightarrow> nat" where
  \<comment> \<open>a bound on the pairs of tiles the children can still deliver\<close>
  "pairs_left s =
     (length (batches (children0 s)) - cursor (children0 s)) * Suc (length (batches (children1 s)))
     + (length (batches (children1 s)) - cursor (children1 s))"

text \<open>
  \<open>DExecute\<close> (lines 55 to 191). When the pair of tiles gave no row, line 187 calls
  \<open>DExecute\<close> again, drops what the call returns, and line 190 returns true. A failed
  assertion in the inner call ends the program, so it ends the outer call as well.
\<close>

function DExecute :: "NestedLoopJoinExecutor \<Rightarrow> error + bool \<times> NestedLoopJoinExecutor" where
  "DExecute s =
     (case DExecute_once s of
        Inl e \<Rightarrow> Inl e
      | Inr (Returned b s') \<Rightarrow> Inr (b, s')
      | Inr (TryAgain s') \<Rightarrow>
          (case DExecute s' of
             Inl e \<Rightarrow> Inl e
           | Inr (b, s'') \<Rightarrow> Inr (True, s'')))"
  by pat_completeness auto
termination
proof (relation "measure pairs_left")
  show "wf (measure pairs_left)" by simp
next
  fix s :: NestedLoopJoinExecutor and a s'
  assume once: "DExecute_once s = Inr a" and a: "a = TryAgain s'"
  obtain got rse s1 where pr: "pull_right s = (got, rse, s1)"
    by (cases "pull_right s") auto
  have got: "got"
    using once a pr by (cases got) (simp_all add: DExecute_once_def)
  obtain gl s2 where pl: "pull_left rse s1 = (gl, s2)"
    by (cases "pull_left rse s1") auto
  have gl: "gl"
    using once a pr pl got by (cases gl) (simp_all add: DExecute_once_def)
  have jt: "join_tiles s2 = Inr (TryAgain s')"
    using once a pr pl got gl by (simp add: DExecute_once_def)
  have s': "batches (children0 s') = batches (children0 s2) \<and> cursor (children0 s') = cursor (children0 s2)
        \<and> batches (children1 s') = batches (children1 s2) \<and> cursor (children1 s') = cursor (children1 s2)"
    using jt
    by (auto simp: join_tiles_def child_GetOutput_def Let_def split: option.splits sum.splits if_splits)
  have bs: "batches (children0 s2) = batches (children0 s) \<and> batches (children1 s2) = batches (children1 s)"
    using pr pl
    by (auto simp: pull_right_def pull_left_def child_Execute_def child_Init_def Let_def
          split: if_splits prod.splits)
  have step: "(length (batches (children0 s)) - cursor (children0 s2) \<le> length (batches (children0 s)) - cursor (children0 s)
               \<and> length (batches (children1 s)) - cursor (children1 s2) < length (batches (children1 s)) - cursor (children1 s))
            \<or> (length (batches (children0 s)) - cursor (children0 s2) < length (batches (children0 s)) - cursor (children0 s)
               \<and> length (batches (children1 s)) - cursor (children1 s2) \<le> length (batches (children1 s)))"
    using pr pl got gl
    by (auto simp: pull_right_def pull_left_def child_Execute_def child_Init_def Let_def
          split: if_splits prod.splits)
  have arith: "l2 * Suc R + r2 < l * Suc R + r"
    if "(l2 \<le> l \<and> r2 < r) \<or> (l2 < l \<and> r2 \<le> R)" for l l2 r r2 R :: nat
    using that
  proof
    assume "l2 \<le> l \<and> r2 < r"
    then have "l2 * Suc R \<le> l * Suc R" and "r2 < r"
      by (simp_all only: mult_le_mono1)
    then show ?thesis by linarith
  next
    assume h: "l2 < l \<and> r2 \<le> R"
    then have "Suc l2 \<le> l" by simp
    then have "Suc l2 * Suc R \<le> l * Suc R"
      by (rule mult_le_mono1)
    moreover have "l2 * Suc R + r2 < Suc l2 * Suc R" using h by simp
    ultimately show ?thesis by linarith
  qed
  have "pairs_left s2 < pairs_left s"
    unfolding pairs_left_def using arith [OF step] bs by simp
  then show "(s', s) \<in> measure pairs_left"
    using s' by (simp add: pairs_left_def)
qed

text \<open>
  The number of activations of \<open>DExecute\<close> that are on the call stack when the
  innermost one returns: the call itself, and one more for every pair of tiles that
  gave no row (the call in line 187 is followed by the destructors of the three
  \<open>unique_ptr\<close>s and by \<open>return true\<close>, so its frame stays).
\<close>

function DExecute_depth :: "NestedLoopJoinExecutor \<Rightarrow> nat" where
  "DExecute_depth s =
     (case DExecute_once s of
        Inl e \<Rightarrow> 1
      | Inr (Returned b s') \<Rightarrow> 1
      | Inr (TryAgain s') \<Rightarrow> Suc (DExecute_depth s'))"
  by pat_completeness auto
termination
proof (relation "{(s', s). DExecute_once s = Inr (TryAgain s')}")
  show "wf {(s', s). DExecute_once s = Inr (TryAgain s')}"
    unfolding wf_def
  proof (intro allI impI)
    fix P :: "NestedLoopJoinExecutor \<Rightarrow> bool" and x
    assume step: "\<forall>x. (\<forall>y. (y, x) \<in> {(s', s). DExecute_once s = Inr (TryAgain s')} \<longrightarrow> P y) \<longrightarrow> P x"
    show "P x"
      by (induction x rule: DExecute.induct) (rule step [rule_format], simp)
  qed
qed simp

subsection \<open>What the loops are to compute\<close>

text \<open>
  The invariant of a logical batch in the spec: every position list has the same
  length, the row count, which the join reads off the first list.
\<close>

definition row_count :: "LogicalTile \<Rightarrow> nat" where
  "row_count t = length (GetPositionLists t ! 0)"

definition column_count :: "LogicalTile \<Rightarrow> nat" where
  "column_count t = length (GetPositionLists t)"

definition well_formed :: "LogicalTile \<Rightarrow> bool" where
  "well_formed t = (\<forall>column \<in> set (GetPositionLists t). length column = row_count t)"

text \<open>
  Step 4 of the algorithm in the spec, for given pairs of row indices: the output has
  the columns of the left batch and then those of the right batch, and its row \<open>k\<close>
  holds the positions of left row \<open>i\<close> and of right row \<open>j\<close>, where \<open>(i, j)\<close> is
  pair \<open>k\<close>. \<open>all_pairs\<close> are the pairs in left-major, right-minor order.
\<close>

definition joined_rows :: "LogicalTile \<Rightarrow> LogicalTile \<Rightarrow> (nat \<times> nat) list \<Rightarrow> oid_t list list" where
  "joined_rows left_tile right_tile pairs =
     map (\<lambda>column. map (\<lambda>(i, j). column ! i) pairs) (GetPositionLists left_tile)
     @ map (\<lambda>column. map (\<lambda>(i, j). column ! j) pairs) (GetPositionLists right_tile)"

definition all_pairs :: "LogicalTile \<Rightarrow> LogicalTile \<Rightarrow> (nat \<times> nat) list" where
  "all_pairs left_tile right_tile = List.product [0..<row_count left_tile] [0..<row_count right_tile]"

definition kept_pairs :: "AbstractExpression option \<Rightarrow> LogicalTile \<Rightarrow> LogicalTile \<Rightarrow> (nat \<times> nat) list" where
  "kept_pairs p left_tile right_tile =
     filter (\<lambda>(i, j). \<not> skip_pair p left_tile i right_tile j) (all_pairs left_tile right_tile)"

subsection \<open>Runs of the executor\<close>

text \<open>
  The caller of the join initialises it and advances it; what the caller can observe
  of an advance is its return value and the output slot.
\<close>

definition first_DExecute :: "error + NestedLoopJoinExecutor \<Rightarrow> error + bool \<times> NestedLoopJoinExecutor" where
  "first_DExecute r = (case r of Inl e \<Rightarrow> Inl e | Inr s \<Rightarrow> DExecute s)"

definition next_DExecute :: "error + bool \<times> NestedLoopJoinExecutor \<Rightarrow> error + bool \<times> NestedLoopJoinExecutor" where
  "next_DExecute r = (case r of Inl e \<Rightarrow> Inl e | Inr (b, s) \<Rightarrow> DExecute s)"

definition observed :: "error + bool \<times> NestedLoopJoinExecutor \<Rightarrow> error + bool \<times> LogicalTile option" where
  "observed r = (case r of Inl e \<Rightarrow> Inl e | Inr (b, s) \<Rightarrow> Inr (b, join_output s))"

definition first_depth :: "error + NestedLoopJoinExecutor \<Rightarrow> error + nat" where
  "first_depth r = (case r of Inl e \<Rightarrow> Inl e | Inr s \<Rightarrow> Inr (DExecute_depth s))"

text \<open>Tiles and predicates of the examples.\<close>

definition tile_a :: LogicalTile where
  "tile_a = \<lparr>GetSchema = [''a''], GetPositionLists = [[7]]\<rparr>"

definition tile_b :: LogicalTile where
  "tile_b = \<lparr>GetSchema = [''b''], GetPositionLists = [[9]]\<rparr>"

definition tile_c :: LogicalTile where
  "tile_c = \<lparr>GetSchema = [''b''], GetPositionLists = [[11]]\<rparr>"

definition tile_no_columns :: LogicalTile where
  "tile_no_columns = \<lparr>GetSchema = [], GetPositionLists = []\<rparr>"

definition tile_no_rows :: LogicalTile where
  "tile_no_rows = \<lparr>GetSchema = [''e''], GetPositionLists = [[]]\<rparr>"

definition tile_left :: LogicalTile where
  \<comment> \<open>the left batch of the scenario in the spec: two rows, one column\<close>
  "tile_left = \<lparr>GetSchema = [''l''], GetPositionLists = [[10, 20]]\<rparr>"

definition tile_right :: LogicalTile where
  \<comment> \<open>the right batch of the scenario in the spec: three rows, one column\<close>
  "tile_right = \<lparr>GetSchema = [''r''], GetPositionLists = [[5, 15, 25]]\<rparr>"

definition false_predicate :: AbstractExpression where
  "false_predicate l r = ValueFalse"

fun less_predicate :: AbstractExpression where
  \<comment> \<open>left.col0 < right.col0, on the positions themselves\<close>
  "less_predicate (ContainerTuple lt i) (ContainerTuple rt j) =
     (if GetPositionLists lt ! 0 ! i < GetPositionLists rt ! 0 ! j then ValueTrue else ValueFalse)"


text \<open>
  A join whose predicate is false on every pair, over a left child with \<open>n\<close> tiles
  and a right child with one: a run of \<open>n\<close> pairs of tiles that give no row.
\<close>

definition empty_run :: "nat \<Rightarrow> error + NestedLoopJoinExecutor" where
  "empty_run n = DInit (Some false_predicate) [new_child (replicate n tile_a), new_child [tile_b]]"

text \<open>
  The executor inside such a run: the right child has delivered its tile, the left
  child its first \<open>k\<close> tiles, and no pair gave a row.
\<close>

definition in_run :: "nat \<Rightarrow> nat \<Rightarrow> NestedLoopJoinExecutor" where
  "in_run n k = \<lparr>children0 = \<lparr>batches = replicate n tile_a, cursor = k, slot = None\<rparr>,
       children1 = \<lparr>batches = [tile_b], cursor = 1, slot = None\<rparr>,
       predicate = Some false_predicate, left_scan_start = False, join_output = None\<rparr>"

text \<open>
  An executor in the middle of an activation: both children were advanced, the left
  slot holds a tile with no row and the right slot a tile of three rows.
\<close>

definition holding_no_rows :: NestedLoopJoinExecutor where
  "holding_no_rows =
     \<lparr>children0 = \<lparr>batches = [tile_no_rows], cursor = 1, slot = Some tile_no_rows\<rparr>,
      children1 = \<lparr>batches = [tile_right], cursor = 1, slot = Some tile_right\<rparr>,
      predicate = None, left_scan_start = False, join_output = None\<rparr>"

text \<open>Executors with a child that has no tile at all.\<close>

definition no_right_tiles :: NestedLoopJoinExecutor where
  "no_right_tiles = \<lparr>children0 = new_child [tile_a], children1 = new_child [],
     predicate = None, left_scan_start = True, join_output = None\<rparr>"

definition no_left_tiles :: NestedLoopJoinExecutor where
  "no_left_tiles = \<lparr>children0 = new_child [], children1 = new_child [tile_b],
     predicate = None, left_scan_start = True, join_output = None\<rparr>"

section \<open>Theorems: optimizer group\<close>

lemma call_has_explored: "has_explored g \<Longrightarrow> has_explored (call g c)"
  by (cases c) (simp_all add: SetExplorationFlag_def SetImplementationFlag_def)

lemma call_has_implemented: "has_implemented g \<Longrightarrow> has_implemented (call g c)"
  by (cases c) (simp_all add: SetExplorationFlag_def SetImplementationFlag_def)

lemma foldl_call_has_explored: "has_explored g \<Longrightarrow> has_explored (foldl call g cs)"
  by (induction cs arbitrary: g) (simp_all add: call_has_explored)

lemma foldl_call_has_implemented: "has_implemented g \<Longrightarrow> has_implemented (foldl call g cs)"
  by (induction cs arbitrary: g) (simp_all add: call_has_implemented)

text \<open>
  Claim C10, amended. After \<open>SetExplorationFlag\<close>, \<open>HasExplored\<close> answers true after
  every further sequence of calls of the four flag members of group.h, and after
  \<open>SetImplementationFlag\<close>, \<open>HasImplemented\<close> does: none of these four members sets a
  flag back to false. The implicit public copy assignment does overwrite both flags,
  with the flags of its right-hand side.
\<close>

theorem Group_flags_monotone:
  "HasExplored (calls (SetExplorationFlag g) cs)
   \<and> HasImplemented (calls (SetImplementationFlag g) cs)
   \<and> HasExplored (copy_assign g rhs) = HasExplored rhs
   \<and> HasImplemented (copy_assign g rhs) = HasImplemented rhs"
  unfolding HasExplored_def HasImplemented_def calls_def
  by (simp add: foldl_call_has_explored foldl_call_has_implemented
        SetExplorationFlag_def SetImplementationFlag_def copy_assign_def)

text \<open>
  The claim as stated fails: a group whose two flags were set, and that is then assigned
  a group that was neither explored nor implemented, answers false to both getters.
\<close>

theorem copy_assignment_resets_flags:
  "HasExplored (copy_assign (SetImplementationFlag (SetExplorationFlag untouched_group)) untouched_group)
     = False
   \<and> HasImplemented (copy_assign (SetImplementationFlag (SetExplorationFlag untouched_group)) untouched_group)
     = False
   \<and> HasExplored (SetImplementationFlag (SetExplorationFlag untouched_group)) = True
   \<and> HasImplemented (SetImplementationFlag (SetExplorationFlag untouched_group)) = True"
  by (simp add: HasExplored_def HasImplemented_def copy_assign_def untouched_group_def
        SetExplorationFlag_def SetImplementationFlag_def)

section \<open>Theorems: tuple\<close>

text \<open>
  Claim C9, amended. Destruction releases the fixed-layout buffer \<open>tuple_data\<close> points
  to, whichever constructor, assignment or \<open>Move\<close> set the pointer (the tuple keeps no
  record of who made the buffer), and nothing else: no out-of-line payload and no
  other array is released. A tuple without a buffer releases nothing.
\<close>

theorem destructor_releases_tuple_data:
  "(tuple_data t = None \<longrightarrow> Tuple_destroy t h = Inr h)
   \<and> (tuple_data t = Some b \<and> arrays h b = Some n \<longrightarrow>
        (\<exists>h'. Tuple_destroy t h = Inr h' \<and> arrays h' b = None
            \<and> (\<forall>a. a \<noteq> b \<longrightarrow> arrays h' a = arrays h a)))"
  by (simp add: Tuple_destroy_def delete_array_def)

text \<open>
  The default tuple, and the tuple over the buffer: the buffer is released, the
  payload stays.
\<close>

theorem destructor_releases_tuple_data_witness:
  "Tuple_destroy Tuple_default heap_with_payload = Inr heap_with_payload
   \<and> (\<exists>h'. Tuple_destroy tuple_over_buffer heap_with_payload = Inr h'
          \<and> arrays h' 0 = None \<and> arrays h' 1 = Some 5)"
proof -
  have 1: "tuple_data Tuple_default = None"
    by (simp add: Tuple_default_def)
  have 2: "tuple_data tuple_over_buffer = Some 0 \<and> arrays heap_with_payload 0 = Some 16"
    by (simp add: tuple_over_buffer_def heap_with_payload_def)
  have 3: "arrays heap_with_payload 1 = Some 5"
    by (simp add: heap_with_payload_def)
  from destructor_releases_tuple_data [of Tuple_default heap_with_payload] 1
  have a: "Tuple_destroy Tuple_default heap_with_payload = Inr heap_with_payload"
    by simp
  from destructor_releases_tuple_data [of tuple_over_buffer heap_with_payload 0 16] 2
  obtain h' where "Tuple_destroy tuple_over_buffer heap_with_payload = Inr h'"
      "arrays h' 0 = None" "\<forall>a. a \<noteq> 0 \<longrightarrow> arrays h' a = arrays heap_with_payload a"
    by blast
  with 3 have "\<exists>h'. Tuple_destroy tuple_over_buffer heap_with_payload = Inr h'
          \<and> arrays h' 0 = None \<and> arrays h' 1 = Some 5"
    by auto
  with a show ?thesis by simp
qed

text \<open>
  The claim as stated fails: a caller makes a buffer (address 0), sets a tuple up over
  it with the constructor of lines 51 to 54, and after the tuple's destruction the heap
  has no live array left. The buffer the tuple borrowed was released.
\<close>

theorem destructor_frees_borrowed_buffer:
  "borrowed_buffer_scenario = Inr (0, \<lparr>arrays = Map.empty, next_addr = 1\<rparr>)"
  by (simp add: borrowed_buffer_scenario_def new_array_def empty_heap_def Tuple_of_schema_data_def
        Tuple_destroy_def delete_array_def)

section \<open>Theorems: the loops over one pair of tiles\<close>

lemmas run_defs = DExecute_once_def pull_right_def pull_left_def join_tiles_def child_Execute_def
  child_Init_def child_GetOutput_def new_child_def DInit_def LogicalTileFactory_GetTile_def
  join_position_lists_def copy_left_def copy_right_def at2_def push_back_at_def skip_pair_def
  IsFalse_def Let_def

lemma for_each_append:
  "for_each (xs @ ys) body s =
     (case for_each xs body s of Inl e \<Rightarrow> Inl e | Inr s' \<Rightarrow> for_each ys body s')"
  by (induction xs arbitrary: s) (simp_all split: sum.splits)

lemma copy_left_prefix:
  assumes "n \<le> length lpl" "length lpl \<le> length pls" "\<forall>c < length lpl. i < length (lpl ! c)"
  shows "for_each [0..<n]
       (\<lambda>c pls. case at2 lpl c i of Inl e \<Rightarrow> Inl e | Inr v \<Rightarrow> push_back_at pls c v) pls
     = Inr (map (\<lambda>k. if k < n then pls ! k @ [lpl ! k ! i] else pls ! k) [0..<length pls])"
  using assms(1)
proof (induction n)
  case 0
  show ?case by (simp add: map_nth)
next
  case (Suc n)
  let ?X = "map (\<lambda>k. if k < n then pls ! k @ [lpl ! k ! i] else pls ! k) [0..<length pls]"
  have n: "n < length lpl" "n < length pls" "i < length (lpl ! n)"
    using Suc.prems assms(2,3) by auto
  have upd: "?X[n := ?X ! n @ [lpl ! n ! i]]
        = map (\<lambda>k. if k < Suc n then pls ! k @ [lpl ! k ! i] else pls ! k) [0..<length pls]"
    using n by (intro nth_equalityI) (auto simp: nth_list_update less_Suc_eq)
  show ?case
    using Suc.IH Suc.prems n upd
    by (simp add: for_each_append at2_def push_back_at_def del: upt_Suc add: upt_Suc_append)
qed

lemma copy_right_prefix:
  assumes "n \<le> length rpl" "lcc + length rpl \<le> length pls" "\<forall>c < length rpl. j < length (rpl ! c)"
  shows "for_each [0..<n]
       (\<lambda>c pls. case at2 rpl c j of Inl e \<Rightarrow> Inl e | Inr v \<Rightarrow> push_back_at pls (lcc + c) v) pls
     = Inr (map (\<lambda>k. if lcc \<le> k \<and> k < lcc + n then pls ! k @ [rpl ! (k - lcc) ! j] else pls ! k) [0..<length pls])"
  using assms(1)
proof (induction n)
  case 0
  show ?case by simp (auto intro!: nth_equalityI)
next
  case (Suc n)
  let ?X = "map (\<lambda>k. if lcc \<le> k \<and> k < lcc + n then pls ! k @ [rpl ! (k - lcc) ! j] else pls ! k) [0..<length pls]"
  have n: "n < length rpl" "lcc + n < length pls" "j < length (rpl ! n)"
    using Suc.prems assms(2,3) by auto
  have upd: "?X[lcc + n := ?X ! (lcc + n) @ [rpl ! n ! j]]
        = map (\<lambda>k. if lcc \<le> k \<and> k < lcc + Suc n then pls ! k @ [rpl ! (k - lcc) ! j] else pls ! k) [0..<length pls]"
    using n by (intro nth_equalityI) (auto simp: nth_list_update less_Suc_eq)
  show ?case
    using Suc.IH Suc.prems n upd
    by (simp add: for_each_append at2_def push_back_at_def del: upt_Suc add: upt_Suc_append)
qed

lemma length_joined_rows [simp]:
  "length (joined_rows lt rt ps) = column_count lt + column_count rt"
  by (simp add: joined_rows_def column_count_def)

lemma emit_pair:
  assumes l: "\<forall>c < column_count lt. i < length (GetPositionLists lt ! c)"
      and r: "\<forall>c < column_count rt. j < length (GetPositionLists rt ! c)"
  shows "(case copy_left (GetPositionLists lt) i (joined_rows lt rt ps) of
            Inl e \<Rightarrow> Inl e
          | Inr pls' \<Rightarrow> copy_right (GetPositionLists rt) (column_count lt) j pls')
         = Inr (joined_rows lt rt (ps @ [(i, j)]))"
proof -
  let ?J = "joined_rows lt rt ps"
  let ?n = "column_count lt + column_count rt"
  let ?X = "map (\<lambda>k. if k < column_count lt then ?J ! k @ [GetPositionLists lt ! k ! i] else ?J ! k) [0..<?n]"
  have left: "copy_left (GetPositionLists lt) i ?J = Inr ?X"
    unfolding copy_left_def
    using copy_left_prefix [of "length (GetPositionLists lt)" "GetPositionLists lt" ?J i] l
    by (simp add: column_count_def)
  have right: "copy_right (GetPositionLists rt) (column_count lt) j ?X
      = Inr (map (\<lambda>k. if column_count lt \<le> k \<and> k < column_count lt + length (GetPositionLists rt)
                       then ?X ! k @ [GetPositionLists rt ! (k - column_count lt) ! j] else ?X ! k)
               [0..<length ?X])"
    unfolding copy_right_def
    using r by (intro copy_right_prefix) (simp_all add: column_count_def)
  have "map (\<lambda>k. if column_count lt \<le> k \<and> k < column_count lt + length (GetPositionLists rt)
                       then ?X ! k @ [GetPositionLists rt ! (k - column_count lt) ! j] else ?X ! k)
               [0..<length ?X] = joined_rows lt rt (ps @ [(i, j)])"
    by (intro nth_equalityI) (auto simp: joined_rows_def column_count_def nth_append)
  with left right show ?thesis by simp
qed

lemma inner_loop:
  assumes l: "\<forall>c < column_count lt. i < length (GetPositionLists lt ! c)"
      and r: "\<forall>j \<in> set js. \<forall>c < column_count rt. j < length (GetPositionLists rt ! c)"
  shows "for_each js
           (\<lambda>j pls. if skip_pair p lt i rt j then Inr pls
                     else (case copy_left (GetPositionLists lt) i pls of
                             Inl e \<Rightarrow> Inl e
                           | Inr pls' \<Rightarrow> copy_right (GetPositionLists rt) (column_count lt) j pls'))
           (joined_rows lt rt ps)
         = Inr (joined_rows lt rt
                  (ps @ filter (\<lambda>(i, j). \<not> skip_pair p lt i rt j) (map (Pair i) js)))"
  using r
proof (induction js arbitrary: ps)
  case Nil
  show ?case by simp
next
  case (Cons j js)
  show ?case
  proof (cases "skip_pair p lt i rt j")
    case True
    with Cons show ?thesis by simp
  next
    case False
    have "\<forall>c < column_count rt. j < length (GetPositionLists rt ! c)"
      using Cons.prems by simp
    from emit_pair [OF l this, of ps] False Cons.IH [of "ps @ [(i, j)]"] Cons.prems
    show ?thesis by simp
  qed
qed

lemma outer_loop:
  assumes l: "\<forall>i \<in> set is. \<forall>c < column_count lt. i < length (GetPositionLists lt ! c)"
      and r: "\<forall>j \<in> set js. \<forall>c < column_count rt. j < length (GetPositionLists rt ! c)"
  shows "for_each is
           (\<lambda>i. for_each js
              (\<lambda>j pls. if skip_pair p lt i rt j then Inr pls
                     else (case copy_left (GetPositionLists lt) i pls of
                             Inl e \<Rightarrow> Inl e
                           | Inr pls' \<Rightarrow> copy_right (GetPositionLists rt) (column_count lt) j pls')))
           (joined_rows lt rt ps)
         = Inr (joined_rows lt rt
                  (ps @ filter (\<lambda>(i, j). \<not> skip_pair p lt i rt j) (List.product is js)))"
  using l
proof (induction "is" arbitrary: ps)
  case Nil
  show ?case by simp
next
  case (Cons i "is")
  have "\<forall>c < column_count lt. i < length (GetPositionLists lt ! c)"
    using Cons.prems by simp
  from inner_loop [OF this r, of p ps] Cons.IH Cons.prems
  show ?case by simp
qed

text \<open>
  On tiles that keep the invariant of a batch and have a column each, the loops return
  the rows of the pairs they do not skip, in the order of the pairs.
\<close>

lemma join_position_lists_eq:
  assumes "well_formed lt" "well_formed rt" "0 < column_count lt" "0 < column_count rt"
  shows "join_position_lists p lt rt = Inr (joined_rows lt rt (kept_pairs p lt rt))"
proof -
  have l: "\<forall>i \<in> set [0..<row_count lt]. \<forall>c < column_count lt. i < length (GetPositionLists lt ! c)"
    using assms(1) by (simp add: well_formed_def column_count_def)
  have r: "\<forall>j \<in> set [0..<row_count rt]. \<forall>c < column_count rt. j < length (GetPositionLists rt ! c)"
    using assms(2) by (simp add: well_formed_def column_count_def)
  have init: "replicate (length (GetPositionLists lt) + length (GetPositionLists rt)) []
      = joined_rows lt rt []"
    by (simp add: joined_rows_def replicate_add map_replicate_const)
  have cols: "length (GetPositionLists lt) \<noteq> 0" "length (GetPositionLists rt) \<noteq> 0"
    using assms(3,4) by (simp_all add: column_count_def)
  show ?thesis
    unfolding join_position_lists_def Let_def kept_pairs_def all_pairs_def
    using outer_loop [OF l r, of p "[]", unfolded column_count_def] cols
    by (simp add: init column_count_def row_count_def)
qed

lemma kept_pairs_None: "kept_pairs None l r = all_pairs l r"
  by (simp add: kept_pairs_def skip_pair_def)

lemma length_all_pairs: "length (all_pairs l r) = row_count l * row_count r"
  by (simp add: all_pairs_def)

lemma all_pairs_nth:
  assumes "i < row_count l" "j < row_count r"
  shows "all_pairs l r ! (i * row_count r + j) = (i, j)"
proof -
  have "i * row_count r + j < Suc i * row_count r" using assms(2) by simp
  also have "\<dots> \<le> row_count l * row_count r"
    using assms(1) by (intro mult_le_mono1) simp
  finally have lt: "i * row_count r + j < row_count l * row_count r" .
  then show ?thesis
    using assms by (simp add: all_pairs_def product_nth)
qed

lemma joined_rows_left:
  "c < column_count l \<Longrightarrow>
   joined_rows l r ps ! c = map (\<lambda>(i, j). GetPositionLists l ! c ! i) ps"
  by (simp add: joined_rows_def column_count_def nth_append)

lemma joined_rows_right:
  "c < column_count r \<Longrightarrow>
   joined_rows l r ps ! (column_count l + c) = map (\<lambda>(i, j). GetPositionLists r ! c ! j) ps"
  by (simp add: joined_rows_def column_count_def nth_append)

lemma joined_rows_lengths:
  "\<forall>column \<in> set (joined_rows l r ps). length column = length ps"
  by (auto simp: joined_rows_def)

lemma for_each_no_rows: "for_each xs (\<lambda>i. for_each [] (body i)) s = Inr s"
  by (induction xs) simp_all

text \<open>
The two batches of the scenario in the spec.
\<close>

lemma well_formed_tile_left:
  "well_formed tile_left \<and> column_count tile_left = 1 \<and> row_count tile_left = 2"
  by (simp add: well_formed_def tile_left_def column_count_def row_count_def)

lemma well_formed_tile_right:
  "well_formed tile_right \<and> column_count tile_right = 1 \<and> row_count tile_right = 3"
  by (simp add: well_formed_def tile_right_def column_count_def row_count_def)

lemma all_pairs_example:
  "all_pairs tile_left tile_right = [(0, 0), (0, 1), (0, 2), (1, 0), (1, 1), (1, 2)]"
  using well_formed_tile_left well_formed_tile_right
  by (simp add: all_pairs_def upt_rec [of _ "numeral n" for n] upt_rec [of _ 1] del: upt_Suc)

lemma joined_rows_example:
  "joined_rows tile_left tile_right (all_pairs tile_left tile_right)
   = [[10, 10, 10, 20, 20, 20], [5, 15, 25, 5, 15, 25]]"
  unfolding all_pairs_example
  by (simp add: joined_rows_def tile_left_def tile_right_def)




section \<open>Theorems: DExecute\<close>

declare DExecute.simps [simp del] DExecute_depth.simps [simp del]

lemma DExecute_Returned:
  "DExecute_once s = Inr (Returned b s') \<Longrightarrow> DExecute s = Inr (b, s')"
  by (subst DExecute.simps) simp

lemma DExecute_failed:
  "DExecute_once s = Inl e \<Longrightarrow> DExecute s = Inl e"
  by (subst DExecute.simps) simp

lemma DExecute_TryAgain:
  "DExecute_once s = Inr (TryAgain s') \<Longrightarrow>
   DExecute s = (case DExecute s' of Inl e \<Rightarrow> Inl e | Inr (b, s'') \<Rightarrow> Inr (True, s''))"
  by (subst DExecute.simps) simp

lemma DExecute_depth_Returned:
  "DExecute_once s = Inr (Returned b s') \<Longrightarrow> DExecute_depth s = 1"
  by (subst DExecute_depth.simps) simp

lemma DExecute_depth_TryAgain:
  "DExecute_once s = Inr (TryAgain s') \<Longrightarrow> DExecute_depth s = Suc (DExecute_depth s')"
  by (subst DExecute_depth.simps) simp

lemma first_attempt:
  "DExecute_once \<lparr>children0 = new_child (l # ls), children1 = new_child (r # rs),
                  predicate = p, left_scan_start = True, join_output = None\<rparr>
   = (case join_position_lists p l r of
        Inl e \<Rightarrow> Inl e
      | Inr pls \<Rightarrow>
          if 0 < length (pls ! 0)
          then Inr (Returned True
                 \<lparr>children0 = \<lparr>batches = l # ls, cursor = 1, slot = None\<rparr>,
                  children1 = \<lparr>batches = r # rs, cursor = 1, slot = None\<rparr>,
                  predicate = p, left_scan_start = False,
                  join_output = Some \<lparr>GetSchema = GetSchema l @ GetSchema r, GetPositionLists = pls\<rparr>\<rparr>)
          else Inr (TryAgain
                 \<lparr>children0 = \<lparr>batches = l # ls, cursor = 1, slot = None\<rparr>,
                  children1 = \<lparr>batches = r # rs, cursor = 1, slot = None\<rparr>,
                  predicate = p, left_scan_start = False, join_output = None\<rparr>))"
  by (simp add: DExecute_once_def pull_right_def pull_left_def join_tiles_def child_Execute_def
        child_GetOutput_def new_child_def LogicalTileFactory_GetTile_def Let_def
      split: sum.splits)

text \<open>
  What the inner call of line 187 returns is dropped: the outer call returns true also
  when the inner call reported exhaustion.
\<close>

lemma retry_result_is_dropped:
  "DExecute_once s = Inr (TryAgain s1) \<Longrightarrow> DExecute s1 = Inr (b, s2) \<Longrightarrow> DExecute s = Inr (True, s2)"
  by (simp add: DExecute_TryAgain)

text \<open>
  Every activation that joins two tiles takes them out of both children (lines 90 and
  91), so an activation that does not advance the left child finds its slot empty: in
  the middle of a pass over the right child, \<open>DExecute\<close> fails the assertion of
  line 94.
\<close>

lemma slots_empty_after_join:
  "join_tiles s = Inr a \<Longrightarrow> a = Returned b s' \<or> a = TryAgain s' \<Longrightarrow>
   slot (children0 s') = None \<and> slot (children1 s') = None"
  by (auto simp: join_tiles_def child_GetOutput_def Let_def split: option.splits sum.splits if_splits)

lemma left_tile_not_kept:
  assumes "\<not> left_scan_start s"
      and "cursor (children1 s) < length (batches (children1 s))"
      and "slot (children0 s) = None"
  shows "DExecute s = Inl AssertionFailed"
  using assms
  by (intro DExecute_failed)
     (simp add: DExecute_once_def pull_right_def pull_left_def join_tiles_def child_Execute_def
        child_GetOutput_def Let_def)

lemma right_child_without_tiles:
  "batches (children1 s) = [] \<Longrightarrow>
   DExecute s = Inr (False, s\<lparr>children1 := (children1 s)\<lparr>cursor := 0\<rparr>\<rparr>)"
  by (rule DExecute_Returned)
     (simp add: DExecute_once_def pull_right_def child_Execute_def child_Init_def)

lemma left_child_exhausted:
  assumes "batches (children1 s) \<noteq> []"
      and "left_scan_start s \<or> length (batches (children1 s)) \<le> cursor (children1 s)"
      and "length (batches (children0 s)) \<le> cursor (children0 s)"
  shows "\<exists>s'. DExecute s = Inr (False, s')"
proof -
  have "\<exists>s'. DExecute_once s = Inr (Returned False s')"
    using assms
    by (auto simp: DExecute_once_def pull_right_def pull_left_def child_Execute_def child_Init_def Let_def)
  then show ?thesis
    using DExecute_Returned by blast
qed

lemma join_tiles_no_rows:
  assumes "slot (children0 s) = Some l" "slot (children1 s) = Some r"
      and "0 < column_count l" "0 < column_count r"
      and "row_count l = 0 \<or> row_count r = 0"
  shows "join_tiles s
         = Inr (TryAgain (s\<lparr>children0 := (children0 s)\<lparr>slot := None\<rparr>,
                            children1 := (children1 s)\<lparr>slot := None\<rparr>\<rparr>))"
proof -
  have "join_position_lists (predicate s) l r
        = Inr (replicate (column_count l + column_count r) [])"
    using assms(3-5)
    by (auto simp: join_position_lists_def Let_def column_count_def row_count_def for_each_no_rows)
  moreover have "replicate (column_count l + column_count r) [] ! 0 = ([] :: oid_t list)"
    using assms(3) by simp
  ultimately show ?thesis
    using assms(1,2) by (simp add: join_tiles_def child_GetOutput_def Let_def)
qed

text \<open>
  Claim C6, amended. For a pair of batches that have a column each and of which one has
  no row, the loops of lines 135 to 173 give no output pair and no failure (every
  position list of the result is empty), and lines 90 to 188 of the activation that
  holds the two batches publish nothing, fail no assertion and go to the retry of
  line 187; what the retry does is not stated here. A batch with no column fails the
  assertion of line 122 or 123. An advance that finds, at its own first pull, the
  right child without any tile even after the restart, or the left child without a
  further tile, returns false and fails nothing; an advance in which only a retry
  finds a child exhausted is not stated here.
\<close>

theorem zero_rows_give_no_pairs:
  "(0 < column_count l \<and> 0 < column_count r \<and> (row_count l = 0 \<or> row_count r = 0) \<longrightarrow>
      join_position_lists p l r = Inr (replicate (column_count l + column_count r) []))
   \<and> (slot (children0 s) = Some l \<and> slot (children1 s) = Some r
        \<and> 0 < column_count l \<and> 0 < column_count r \<and> (row_count l = 0 \<or> row_count r = 0) \<longrightarrow>
      join_tiles s = Inr (TryAgain (s\<lparr>children0 := (children0 s)\<lparr>slot := None\<rparr>,
                                       children1 := (children1 s)\<lparr>slot := None\<rparr>\<rparr>)))
   \<and> (column_count l = 0 \<or> column_count r = 0 \<longrightarrow>
      join_position_lists p l r = Inl AssertionFailed)
   \<and> (batches (children1 s) = [] \<longrightarrow> (\<exists>s'. DExecute s = Inr (False, s')))
   \<and> (batches (children1 s) \<noteq> []
        \<and> (left_scan_start s \<or> length (batches (children1 s)) \<le> cursor (children1 s))
        \<and> length (batches (children0 s)) \<le> cursor (children0 s) \<longrightarrow>
      (\<exists>s'. DExecute s = Inr (False, s')))"
proof (intro conjI impI)
  assume "0 < column_count l \<and> 0 < column_count r \<and> (row_count l = 0 \<or> row_count r = 0)"
  then show "join_position_lists p l r = Inr (replicate (column_count l + column_count r) [])"
    by (auto simp: join_position_lists_def Let_def column_count_def row_count_def for_each_no_rows)
next
  assume "slot (children0 s) = Some l \<and> slot (children1 s) = Some r
        \<and> 0 < column_count l \<and> 0 < column_count r \<and> (row_count l = 0 \<or> row_count r = 0)"
  then show "join_tiles s = Inr (TryAgain (s\<lparr>children0 := (children0 s)\<lparr>slot := None\<rparr>,
                                       children1 := (children1 s)\<lparr>slot := None\<rparr>\<rparr>))"
    using join_tiles_no_rows [of s l r] by blast
next
  assume "column_count l = 0 \<or> column_count r = 0"
  then show "join_position_lists p l r = Inl AssertionFailed"
    by (auto simp: join_position_lists_def Let_def column_count_def)
next
  assume "batches (children1 s) = []"
  then show "\<exists>s'. DExecute s = Inr (False, s')"
    using right_child_without_tiles by blast
next
  assume "batches (children1 s) \<noteq> []
        \<and> (left_scan_start s \<or> length (batches (children1 s)) \<le> cursor (children1 s))
        \<and> length (batches (children0 s)) \<le> cursor (children0 s)"
  then show "\<exists>s'. DExecute s = Inr (False, s')"
    using left_child_exhausted by blast
qed

text \<open>
  A tile with no row on the left, and one on the right, of a tile of the scenario in the
  spec; an activation that holds a tile with no row; a tile with no column; a join
  whose right child has no tile, and one whose left child has none.
\<close>

theorem zero_rows_give_no_pairs_witness:
  "join_position_lists None tile_no_rows tile_right = Inr [[], []]
   \<and> join_position_lists (Some less_predicate) tile_left tile_no_rows = Inr [[], []]
   \<and> join_tiles holding_no_rows
       = Inr (TryAgain
           \<lparr>children0 = \<lparr>batches = [tile_no_rows], cursor = 1, slot = None\<rparr>,
            children1 = \<lparr>batches = [tile_right], cursor = 1, slot = None\<rparr>,
            predicate = None, left_scan_start = False, join_output = None\<rparr>)
   \<and> join_position_lists None tile_no_columns tile_right = Inl AssertionFailed
   \<and> (\<exists>s'. DExecute no_right_tiles = Inr (False, s'))
   \<and> (\<exists>s'. DExecute no_left_tiles = Inr (False, s'))"
proof -
  have cols: "column_count tile_no_rows = 1" "column_count tile_left = 1" "column_count tile_right = 1"
    and rows: "row_count tile_no_rows = 0"
    by (simp_all add: tile_no_rows_def tile_left_def tile_right_def column_count_def row_count_def)
  have none: "column_count tile_no_columns = 0"
    by (simp add: tile_no_columns_def column_count_def)
  have right: "batches (children1 no_right_tiles) = []"
    by (simp add: no_right_tiles_def new_child_def)
  have left: "batches (children1 no_left_tiles) \<noteq> []
        \<and> (left_scan_start no_left_tiles
            \<or> length (batches (children1 no_left_tiles)) \<le> cursor (children1 no_left_tiles))
        \<and> length (batches (children0 no_left_tiles)) \<le> cursor (children0 no_left_tiles)"
    by (simp add: no_left_tiles_def new_child_def)
  have slots: "slot (children0 holding_no_rows) = Some tile_no_rows"
      "slot (children1 holding_no_rows) = Some tile_right"
    by (simp_all add: holding_no_rows_def)
  have 1: "join_position_lists None tile_no_rows tile_right = Inr [[], []]"
    using zero_rows_give_no_pairs [of tile_no_rows tile_right None no_right_tiles] cols rows
    by (simp add: numeral_2_eq_2)
  have 2: "join_position_lists (Some less_predicate) tile_left tile_no_rows = Inr [[], []]"
    using zero_rows_give_no_pairs [of tile_left tile_no_rows "Some less_predicate" no_left_tiles]
      cols rows
    by (simp add: numeral_2_eq_2)
  have 3: "join_tiles holding_no_rows
       = Inr (TryAgain
           \<lparr>children0 = \<lparr>batches = [tile_no_rows], cursor = 1, slot = None\<rparr>,
            children1 = \<lparr>batches = [tile_right], cursor = 1, slot = None\<rparr>,
            predicate = None, left_scan_start = False, join_output = None\<rparr>)"
    using zero_rows_give_no_pairs [of tile_no_rows tile_right None holding_no_rows] cols rows slots
    by (simp add: holding_no_rows_def)
  have 4: "join_position_lists None tile_no_columns tile_right = Inl AssertionFailed"
    using zero_rows_give_no_pairs [of tile_no_columns tile_right None no_right_tiles] none
    by simp
  have 5: "\<exists>s'. DExecute no_right_tiles = Inr (False, s')"
    using zero_rows_give_no_pairs [of tile_no_rows tile_right None no_right_tiles] right
    by simp
  have 6: "\<exists>s'. DExecute no_left_tiles = Inr (False, s')"
    using zero_rows_give_no_pairs [of tile_no_rows tile_right None no_left_tiles] left
    by simp
  from 1 2 3 4 5 6 show ?thesis by simp
qed

text \<open>
  The claim as stated fails: a tile with no column, on either side, fails an assertion.
\<close>

theorem zero_columns_fail_assertion:
  "join_position_lists None tile_no_columns tile_b = Inl AssertionFailed
   \<and> join_position_lists None tile_a tile_no_columns = Inl AssertionFailed"
  by (simp add: join_position_lists_def tile_no_columns_def tile_a_def)

text \<open>
  Claim C3. With no predicate, a left batch of \<open>L\<close> rows and \<open>Lc\<close> columns and a right
  batch of \<open>R\<close> rows and \<open>Rc\<close> columns, none of them zero: the first advance of the
  join returns true and publishes a batch whose schema is the left schema followed by
  the right one, with \<open>Lc + Rc\<close> columns of \<open>L * R\<close> rows each; row \<open>i * R + j\<close>
  is the pair \<open>(i, j)\<close> (left-major, right-minor, every pair once) and holds the
  positions of left row \<open>i\<close> in columns \<open>0..Lc-1\<close> and those of right row \<open>j\<close> in
  columns \<open>Lc..Lc+Rc-1\<close>.
\<close>

theorem cartesian_product_complete:
  assumes "well_formed l" "well_formed r"
      and "0 < column_count l" "0 < column_count r"
      and "0 < row_count l" "0 < row_count r"
  shows "\<exists>s' out.
           first_DExecute (DInit None [new_child (l # ls), new_child (r # rs)]) = Inr (True, s')
         \<and> join_output s' = Some out
         \<and> GetSchema out = GetSchema l @ GetSchema r
         \<and> GetPositionLists out = joined_rows l r (all_pairs l r)
         \<and> column_count out = column_count l + column_count r
         \<and> well_formed out
         \<and> row_count out = row_count l * row_count r
         \<and> (\<forall>i < row_count l. \<forall>j < row_count r.
               all_pairs l r ! (i * row_count r + j) = (i, j)
             \<and> (\<forall>c < column_count l.
                   GetPositionLists out ! c ! (i * row_count r + j) = GetPositionLists l ! c ! i)
             \<and> (\<forall>c < column_count r.
                   GetPositionLists out ! (column_count l + c) ! (i * row_count r + j)
                   = GetPositionLists r ! c ! j))"
proof -
  let ?pls = "joined_rows l r (all_pairs l r)"
  let ?out = "\<lparr>GetSchema = GetSchema l @ GetSchema r, GetPositionLists = ?pls\<rparr>"
  let ?s' = "\<lparr>children0 = \<lparr>batches = l # ls, cursor = 1, slot = None\<rparr>,
              children1 = \<lparr>batches = r # rs, cursor = 1, slot = None\<rparr>,
              predicate = None, left_scan_start = False, join_output = Some ?out\<rparr>"
  have pls: "join_position_lists None l r = Inr ?pls"
    using join_position_lists_eq [OF assms(1-4), of None] by (simp add: kept_pairs_None)
  have first: "?pls ! 0 = map (\<lambda>(i, j). GetPositionLists l ! 0 ! i) (all_pairs l r)"
    using assms(3) by (rule joined_rows_left)
  have rows: "length (?pls ! 0) = row_count l * row_count r"
    by (simp add: first length_all_pairs)
  have "0 < row_count l * row_count r" using assms(5,6) by simp
  then have once: "DExecute_once \<lparr>children0 = new_child (l # ls), children1 = new_child (r # rs),
                  predicate = None, left_scan_start = True, join_output = None\<rparr>
      = Inr (Returned True ?s')"
    by (simp add: first_attempt pls rows del: One_nat_def)
  have run: "first_DExecute (DInit None [new_child (l # ls), new_child (r # rs)]) = Inr (True, ?s')"
    using DExecute_Returned [OF once] by (simp add: first_DExecute_def DInit_def)
  have wf: "well_formed ?out"
    using joined_rows_lengths [of l r "all_pairs l r"]
    by (simp add: well_formed_def row_count_def first)
  have cells: "all_pairs l r ! (i * row_count r + j) = (i, j)
             \<and> (\<forall>c < column_count l.
                   ?pls ! c ! (i * row_count r + j) = GetPositionLists l ! c ! i)
             \<and> (\<forall>c < column_count r.
                   ?pls ! (column_count l + c) ! (i * row_count r + j) = GetPositionLists r ! c ! j)"
    if ij: "i < row_count l" "j < row_count r" for i j
  proof -
    have "i * row_count r + j < Suc i * row_count r" using ij(2) by simp
    also have "\<dots> \<le> row_count l * row_count r"
      using ij(1) by (intro mult_le_mono1) simp
    finally have k: "i * row_count r + j < length (all_pairs l r)"
      by (simp add: length_all_pairs)
    show ?thesis
      using k all_pairs_nth [OF ij]
      by (simp add: joined_rows_left joined_rows_right)
  qed
  show ?thesis
    apply (rule exI [of _ ?s'])
    apply (rule exI [of _ ?out])
    using run wf rows cells
    by (simp add: column_count_def [of ?out] row_count_def [of ?out])
qed

text \<open>
The two batches of the scenario in the spec, joined with no predicate.
\<close>

theorem cartesian_product_complete_witness:
  "\<exists>s'. first_DExecute (DInit None [new_child [tile_left], new_child [tile_right]]) = Inr (True, s')
      \<and> join_output s' = Some \<lparr>GetSchema = [''l'', ''r''],
           GetPositionLists = [[10, 10, 10, 20, 20, 20], [5, 15, 25, 5, 15, 25]]\<rparr>"
proof -
  have "0 < column_count tile_left" "0 < column_count tile_right"
       "0 < row_count tile_left" "0 < row_count tile_right"
    using well_formed_tile_left well_formed_tile_right by simp_all
  from cartesian_product_complete [OF _ _ this, of "[]" "[]"] well_formed_tile_left well_formed_tile_right
  obtain s' out where run: "first_DExecute (DInit None [new_child [tile_left], new_child [tile_right]]) = Inr (True, s')"
    and out: "join_output s' = Some out" "GetSchema out = GetSchema tile_left @ GetSchema tile_right"
      "GetPositionLists out = joined_rows tile_left tile_right (all_pairs tile_left tile_right)"
    by blast
  have "GetPositionLists out = [[10, 10, 10, 20, 20, 20], [5, 15, 25, 5, 15, 25]]"
    using out(3) by (simp only: joined_rows_example)
  moreover have "GetSchema out = [''l'', ''r'']"
    using out(2) by (simp add: tile_left_def tile_right_def)
  ultimately have "out = \<lparr>GetSchema = [''l'', ''r''],
           GetPositionLists = [[10, 10, 10, 20, 20, 20], [5, 15, 25, 5, 15, 25]]\<rparr>"
    by (cases out) simp
  with run out(1) show ?thesis by blast
qed

lemma empty_pair_first_attempt:
  "DExecute_once \<lparr>children0 = new_child [tile_a], children1 = new_child [tile_b],
                predicate = Some false_predicate, left_scan_start = True, join_output = None\<rparr>
  = Inr (TryAgain \<lparr>children0 = \<lparr>batches = [tile_a], cursor = 1, slot = None\<rparr>,
     children1 = \<lparr>batches = [tile_b], cursor = 1, slot = None\<rparr>,
                predicate = Some false_predicate, left_scan_start = False, join_output = None\<rparr>)"
  by (simp add: run_defs tile_a_def tile_b_def false_predicate_def)

text \<open>
  Claim C1. An advance is to return true exactly when it published a batch. A left and
  a right child of one tile each and a predicate that is false on the one pair: the
  first activation finds no row and calls \<open>DExecute\<close> again (line 187), the inner
  call finds the left child exhausted and returns false, the outer call drops that
  and returns true (line 190). The caller gets true and an empty output slot.
\<close>

theorem DExecute_true_without_output:
  "observed (first_DExecute (DInit (Some false_predicate) [new_child [tile_a], new_child [tile_b]]))
   = Inr (True, None)"
proof -
  have "DExecute_once \<lparr>children0 = \<lparr>batches = [tile_a], cursor = 1, slot = None\<rparr>,
     children1 = \<lparr>batches = [tile_b], cursor = 1, slot = None\<rparr>,
                predicate = Some false_predicate, left_scan_start = False, join_output = None\<rparr>
    = Inr (Returned False \<lparr>children0 = \<lparr>batches = [tile_a], cursor = 1, slot = None\<rparr>,
     children1 = \<lparr>batches = [tile_b], cursor = 1, slot = Some tile_b\<rparr>,
                predicate = Some false_predicate, left_scan_start = False, join_output = None\<rparr>)"
    by (simp add: run_defs)
  from DExecute_TryAgain [OF empty_pair_first_attempt] DExecute_Returned [OF this]
  show ?thesis
    by (simp add: observed_def first_DExecute_def DInit_def)
qed

text \<open>
  Claim C7. Between two restarts of the right child the left child is not advanced and
  its tile is to be reused. The left tile of the first advance was taken over by the
  \<open>unique_ptr\<close> of line 90 and is gone when that advance returns; on the second
  advance (the right child has a second tile, the left child is not advanced) line 90
  takes the output of the left child again, gets nothing, and the assertion of line
  94 fails.
\<close>

theorem cached_left_tile_is_gone:
  "observed (first_DExecute (DInit None [new_child [tile_a], new_child [tile_b, tile_c]]))
     = Inr (True, Some \<lparr>GetSchema = [''a'', ''b''], GetPositionLists = [[7], [9]]\<rparr>)
   \<and> next_DExecute (first_DExecute (DInit None [new_child [tile_a], new_child [tile_b, tile_c]]))
     = Inl AssertionFailed"
proof -
  have 1: "DExecute_once \<lparr>children0 = new_child [tile_a], children1 = new_child [tile_b, tile_c],
                predicate = None, left_scan_start = True, join_output = None\<rparr>
    = Inr (Returned True \<lparr>children0 = \<lparr>batches = [tile_a], cursor = 1, slot = None\<rparr>,
       children1 = \<lparr>batches = [tile_b, tile_c], cursor = 1, slot = None\<rparr>,
                predicate = None, left_scan_start = False,
                join_output = Some \<lparr>GetSchema = [''a'', ''b''], GetPositionLists = [[7], [9]]\<rparr>\<rparr>)"
    by (simp add: run_defs tile_a_def tile_b_def)
  have 2: "DExecute_once \<lparr>children0 = \<lparr>batches = [tile_a], cursor = 1, slot = None\<rparr>,
       children1 = \<lparr>batches = [tile_b, tile_c], cursor = 1, slot = None\<rparr>,
                predicate = None, left_scan_start = False,
                join_output = Some \<lparr>GetSchema = [''a'', ''b''], GetPositionLists = [[7], [9]]\<rparr>\<rparr>
    = Inl AssertionFailed"
    by (simp add: run_defs)
  from DExecute_Returned [OF 1] DExecute_failed [OF 2]
  show ?thesis
    by (simp add: observed_def next_DExecute_def first_DExecute_def DInit_def)
qed

text \<open>
  Claim C4. With children that exhaust, the join is to report no-more-output within a
  bounded number of advances, also under a predicate that is never true. One left
  tile, two right tiles and a predicate that is false on every pair: the first advance
  finds no row for the first pair, calls itself, pulls the second right tile, takes
  the output of the left child a second time and fails the assertion of line 94. No
  advance returns false.
\<close>

theorem retry_with_second_right_tile_aborts:
  "first_DExecute (DInit (Some false_predicate) [new_child [tile_a], new_child [tile_b, tile_c]])
   = Inl AssertionFailed"
proof -
  have 1: "DExecute_once \<lparr>children0 = new_child [tile_a], children1 = new_child [tile_b, tile_c],
                predicate = Some false_predicate, left_scan_start = True, join_output = None\<rparr>
    = Inr (TryAgain \<lparr>children0 = \<lparr>batches = [tile_a], cursor = 1, slot = None\<rparr>,
       children1 = \<lparr>batches = [tile_b, tile_c], cursor = 1, slot = None\<rparr>,
                predicate = Some false_predicate, left_scan_start = False, join_output = None\<rparr>)"
    by (simp add: run_defs tile_a_def tile_b_def false_predicate_def)
  have 2: "DExecute_once \<lparr>children0 = \<lparr>batches = [tile_a], cursor = 1, slot = None\<rparr>,
       children1 = \<lparr>batches = [tile_b, tile_c], cursor = 1, slot = None\<rparr>,
                predicate = Some false_predicate, left_scan_start = False, join_output = None\<rparr>
    = Inl AssertionFailed"
    by (simp add: run_defs)
  from DExecute_TryAgain [OF 1] DExecute_failed [OF 2]
  show ?thesis
    by (simp add: first_DExecute_def DInit_def)
qed

lemma in_run_step: "k < n \<Longrightarrow> DExecute_once (in_run n k) = Inr (TryAgain (in_run n (Suc k)))"
  by (simp add: in_run_def run_defs tile_a_def tile_b_def false_predicate_def)

lemma in_run_end:
  "DExecute_once (in_run n n)
   = Inr (Returned False ((in_run n n)\<lparr>children1 := \<lparr>batches = [tile_b], cursor = 1, slot = Some tile_b\<rparr>\<rparr>))"
  by (simp add: in_run_def run_defs)

lemma in_run_depth: "k \<le> n \<Longrightarrow> DExecute_depth (in_run n k) = Suc (n - k)"
proof (induction "n - k" arbitrary: k)
  case 0
  then have "k = n" by simp
  then show ?case using DExecute_depth_Returned [OF in_run_end [of n]] by simp
next
  case (Suc d)
  then have k: "k < n" and d: "d = n - Suc k" by simp_all
  from DExecute_depth_TryAgain [OF in_run_step [OF k]] Suc.hyps(1) [OF d] k
  show ?case by simp
qed

lemma empty_run_first_attempt:
  "DExecute_once \<lparr>children0 = new_child (replicate (Suc m) tile_a), children1 = new_child [tile_b],
                predicate = Some false_predicate, left_scan_start = True, join_output = None\<rparr>
     = Inr (TryAgain (in_run (Suc m) 1))"
  by (simp add: in_run_def run_defs tile_a_def tile_b_def false_predicate_def)

text \<open>
  Claim C5, amended. The retry on a pair of tiles that gave no row is the call of
  \<open>DExecute\<close> by itself in line 187: every such pair adds an activation to the call
  stack, and on a run of \<open>n\<close> pairs without a row \<open>n + 1\<close> activations are nested.
\<close>

theorem retry_depth_grows: "first_depth (empty_run n) = Inr (Suc n)"
proof (cases n)
  case 0
  have "DExecute_once \<lparr>children0 = new_child [], children1 = new_child [tile_b],
                predicate = Some false_predicate, left_scan_start = True, join_output = None\<rparr>
     = Inr (Returned False \<lparr>children0 = new_child [],
          children1 = \<lparr>batches = [tile_b], cursor = 1, slot = Some tile_b\<rparr>,
                predicate = Some false_predicate, left_scan_start = False, join_output = None\<rparr>)"
    by (simp add: run_defs)
  from DExecute_depth_Returned [OF this] 0 show ?thesis
    by (simp add: first_depth_def empty_run_def DInit_def)
next
  case (Suc m)
  from DExecute_depth_TryAgain [OF empty_run_first_attempt [of m]] in_run_depth [of 1 n] Suc
  show ?thesis
    by (simp add: first_depth_def empty_run_def DInit_def)
qed

text \<open>
  The claim as stated fails: a run of three pairs of tiles without a row nests four
  activations of \<open>DExecute\<close>, where a loop would keep one.
\<close>

theorem three_empty_pairs_nest_four_activations: "first_depth (empty_run 3) = Inr 4"
proof -
  have "DExecute_depth (in_run 3 1) = 3"
    using in_run_depth [of 1 3] by simp
  with DExecute_depth_TryAgain [OF empty_run_first_attempt [of 2]]
  show ?thesis
    by (simp add: first_depth_def empty_run_def DInit_def numeral_3_eq_3)
qed

end
